theory Spec2Isabelle
  imports Main "HOL-Library.Word"
begin

section \<open>Strings\<close>

text \<open>
  Python strings (URLs, paths, selectors, exception messages) are modelled as \<open>string\<close>.
  The strings handled inside the page function of \<open>capture_structure\<close> are JavaScript
  strings: sequences of UTF-16 code units, on which \<open>length\<close>, \<open>substring\<close>,
  \<open>replace\<close> and \<open>trim\<close> work unit by unit.
\<close>

type_synonym jschar = "16 word"
type_synonym jsstring = "jschar list"

definition js_of :: "string \<Rightarrow> jsstring" where
  "js_of s = map (\<lambda>c. of_nat (of_char c)) s"

definition NL :: jschar where
  "NL = 0x0A"

text \<open>
  What \<open>String.prototype.trim\<close> strips: the WhiteSpace and LineTerminator code points of
  ECMAScript (tab, LF, VT, FF, CR, space, NBSP, U+1680, U+2000..U+200A, U+2028, U+2029,
  U+202F, U+205F, U+3000, U+FEFF).
\<close>

definition js_ws :: "jschar \<Rightarrow> bool" where
  "js_ws c \<longleftrightarrow>
     c = 0x09 \<or> c = 0x0A \<or> c = 0x0B \<or> c = 0x0C \<or> c = 0x0D \<or> c = 0x20 \<or> c = 0xA0
     \<or> c = 0x1680 \<or> (0x2000 \<le> c \<and> c \<le> 0x200A) \<or> c = 0x2028 \<or> c = 0x2029
     \<or> c = 0x202F \<or> c = 0x205F \<or> c = 0x3000 \<or> c = 0xFEFF"

definition js_trim :: "jsstring \<Rightarrow> jsstring" where
  "js_trim s = rev (dropWhile js_ws (rev (dropWhile js_ws s)))"

text \<open>\<open>s.substring(0, n)\<close>: the first \<open>n\<close> code units, the whole string when it is shorter.\<close>

definition substring0 :: "nat \<Rightarrow> jsstring \<Rightarrow> jsstring" where
  "substring0 n s = take n s"

text \<open>\<open>s.replace(/\n+/g, '\n')\<close>: every maximal run of line feeds becomes one line feed.\<close>

fun collapse_newlines :: "jsstring \<Rightarrow> jsstring" where
  "collapse_newlines (a # b # cs) =
     (if a = NL \<and> b = NL then collapse_newlines (b # cs)
      else a # collapse_newlines (b # cs))"
| "collapse_newlines cs = cs"

fun adjacent_newlines :: "jsstring \<Rightarrow> bool" where
  "adjacent_newlines (a # b # cs) \<longleftrightarrow> (a = NL \<and> b = NL) \<or> adjacent_newlines (b # cs)"
| "adjacent_newlines cs \<longleftrightarrow> False"

text \<open>Python's \<open>sub in s\<close> on strings.\<close>

fun str_in :: "string \<Rightarrow> string \<Rightarrow> bool" where
  "str_in sub [] \<longleftrightarrow> sub = []"
| "str_in sub (c # cs) \<longleftrightarrow> take (length sub) (c # cs) = sub \<or> str_in sub cs"

section \<open>The page function of \<open>capture_structure\<close>\<close>

text \<open>
  The function passed to \<open>page.evaluate\<close> reads the rendered document through
  \<open>document.title\<close>, \<open>window.location.href\<close>, \<open>document.body.innerText\<close> and
  \<open>document.querySelectorAll\<close>. The selector engine belongs to the browser: a document
  is given by what these accessors return, \<open>querySelectorAll\<close> as a function from the
  selector text to the matching elements in document order. Of an element the function
  reads \<open>tagName\<close>, \<open>innerText\<close> and \<open>getAttribute('href')\<close>. \<open>document.title\<close> is a
  string, so that \<open>document.title || ''\<close> is the title itself; a document without a body
  has the body text \<open>''\<close>. A script error inside the page function surfaces as an
  exception of \<open>page.evaluate\<close>.
\<close>

record element =
  tagName :: jsstring
  innerText :: jsstring
  href_attribute :: "jsstring option"

record document =
  doc_title :: jsstring
  location_href :: jsstring
  body_innerText :: "jsstring option"
  querySelectorAll :: "string \<Rightarrow> element list"

record heading =
  heading_tag :: jsstring
  heading_text :: jsstring

record element_counts =
  forms :: nat
  tables :: nat
  buttons :: nat
  inputs :: nat
  cards :: nat
  modals :: nat
  links :: nat
  images :: nat
  headings :: "heading list"

record sidebar_item =
  item_text :: jsstring
  item_href :: "jsstring option"

record page_structure =
  title :: jsstring
  url :: jsstring
  textSummary :: jsstring
  elements :: element_counts
  buttonLabels :: "jsstring list"
  sidebarItems :: "sidebar_item list"

definition text_summary_of :: "document \<Rightarrow> jsstring" where
  "text_summary_of d =
     (let bodyText = (case body_innerText d of Some t \<Rightarrow> t | None \<Rightarrow> [])
      in js_trim (collapse_newlines (substring0 2000 bodyText)))"

definition element_counts_of :: "document \<Rightarrow> element_counts" where
  \<open>element_counts_of d =
     \<lparr> forms = length (querySelectorAll d ''form''),
       tables = length (querySelectorAll d ''table''),
       buttons = length (querySelectorAll d ''button, [role="button"], input[type="submit"]''),
       inputs = length (querySelectorAll d ''input, textarea, select''),
       cards = length (querySelectorAll d ''[class*="card"], [class*="Card"]''),
       modals = length (querySelectorAll d ''[class*="modal"], [class*="Modal"], [role="dialog"]''),
       links = length (querySelectorAll d ''a[href]''),
       images = length (querySelectorAll d ''img''),
       headings = map (\<lambda>h. \<lparr> heading_tag = tagName h, heading_text = substring0 120 (innerText h) \<rparr>)
                      (querySelectorAll d ''h1, h2, h3, h4'') \<rparr>\<close>

definition button_labels_of :: "document \<Rightarrow> jsstring list" where
  \<open>button_labels_of d =
     take 30 (filter (\<lambda>t. length t > 0 \<and> length t < 80)
       (map (\<lambda>b. js_trim (innerText b)) (querySelectorAll d ''button, [role="button"]'')))\<close>

definition sidebar_items_of :: "document \<Rightarrow> sidebar_item list" where
  \<open>sidebar_items_of d =
     filter (\<lambda>a. item_text a \<noteq> [])
       (map (\<lambda>a. \<lparr> item_text = substring0 60 (js_trim (innerText a)), item_href = href_attribute a \<rparr>)
         (querySelectorAll d
            ''nav a, [class*="sidebar"] a, [class*="Sidebar"] a, [class*="nav"] a''))\<close>

definition page_function :: "document \<Rightarrow> page_structure" where
  "page_function d =
     \<lparr> title = doc_title d,
       url = location_href d,
       textSummary = text_summary_of d,
       elements = element_counts_of d,
       buttonLabels = button_labels_of d,
       sidebarItems = sidebar_items_of d \<rparr>"

section \<open>Configuration and report data\<close>

record route =
  path :: string
  name :: string

record viewport =
  width :: nat
  height :: nat

definition SITE :: string where
  "SITE = ''https://splitfin.co.uk''"

definition SCREENSHOTS_DIR :: string where
  "SCREENSHOTS_DIR = ''./screenshots''"

definition VIEWPORT :: viewport where
  "VIEWPORT = \<lparr> width = 1440, height = 900 \<rparr>"

definition REPORT_FILE :: string where
  "REPORT_FILE = ''./screenshots/ui_audit_report.json''"

definition USER_AGENT :: string where
  "USER_AGENT = ''Mozilla/5.0 (Macintosh; Intel Mac OS X 10_15_7) AppleWebKit/537.36''"

definition PAGES :: "route list" where
  "PAGES =
     [ \<lparr> path = ''/dashboard'',          name = ''01-dashboard'' \<rparr>,
       \<lparr> path = ''/orders'',             name = ''02-orders'' \<rparr>,
       \<lparr> path = ''/order/10130'',        name = ''03-order-detail'' \<rparr>,
       \<lparr> path = ''/customers'',          name = ''04-customers'' \<rparr>,
       \<lparr> path = ''/customers/1'',        name = ''05-customer-detail'' \<rparr>,
       \<lparr> path = ''/enquiries'',          name = ''06-enquiries'' \<rparr>,
       \<lparr> path = ''/inventory/products'', name = ''07-products'' \<rparr>,
       \<lparr> path = ''/settings/general'',   name = ''08-settings'' \<rparr> ]"

text \<open>
  The entries of \<open>results\<close> are Python dicts built by two dict displays with different
  keys: an association list from key to value, in the order of the display.
\<close>

datatype pyval =
    Str string
  | JsStr jsstring
  | Counts element_counts
  | Labels "jsstring list"
  | Items "sidebar_item list"

type_synonym result = "(string \<times> pyval) list"

record report =
  site :: string
  report_viewport :: viewport
  timestamp :: string
  pages :: "result list"

section \<open>The browser, the console and the run\<close>

text \<open>
  Everything \<open>main\<close> does to the outside is a call: to the Playwright driver, to the
  page, to the file system, and to the console, since a \<open>print\<close> raises when standard
  output cannot take the text (an encoding that lacks a character, a closed pipe). An
  exception is an instance of Python's \<open>Exception\<close>, the class that the \<open>except\<close> clauses
  catch and that the driver's and the console's errors belong to; the script only uses
  its \<open>str(e)\<close>. The \<open>os.makedirs\<close> of the module runs at import, before \<open>main\<close>, and is
  left out.

  What a \<open>print\<close> writes is kept as the pieces of its f-string: literal text and Python
  strings, strings that came from the page, and numbers.
\<close>

datatype exn = Exception (str: string)

datatype piece = Lit string | Js jsstring | Num nat

datatype event =
    PlaywrightStart
  | PlaywrightStop
  | Launch
  | NewContext viewport string
  | NewPage
  | Goto string string nat
  | WaitForLoadState string nat
  | WaitForTimeout nat
  | Screenshot string
  | Fill string string
  | Click string
  | Evaluate
  | WriteReport string report
  | BrowserClose
  | Print "piece list"

text \<open>
  The state of a run is its history: the calls made so far, in order, including those
  that raised. The outside world is any function of that history: whether the next call
  raises (and what), what \<open>page.url\<close> reads, which document \<open>page.evaluate\<close> runs the page
  function on, and what \<open>time.strftime\<close> returns. A statement for every world covers
  every behaviour of site, browser, console and file system.
\<close>

record world =
  raises :: "event list \<Rightarrow> event \<Rightarrow> exn option"
  page_url :: "event list \<Rightarrow> string"
  rendered :: "event list \<Rightarrow> document"
  strftime :: "event list \<Rightarrow> string"

type_synonym 'a prog = "event list \<Rightarrow> (exn + 'a) \<times> event list"

definition pret :: "'a \<Rightarrow> 'a prog" where
  "pret x h = (Inr x, h)"

definition pbind :: "'a prog \<Rightarrow> ('a \<Rightarrow> 'b prog) \<Rightarrow> 'b prog" where
  "pbind m f h = (case m h of (Inl e, h') \<Rightarrow> (Inl e, h') | (Inr x, h') \<Rightarrow> f x h')"

definition pseq :: "'a prog \<Rightarrow> 'b prog \<Rightarrow> 'b prog" where
  "pseq m n = pbind m (\<lambda>_. n)"

text \<open>
  \<open>try: x = m; ok x  except Exception as e: err e\<close>, for an \<open>ok\<close> that takes care of its own
  exceptions: an exception of \<open>m\<close> goes to \<open>err\<close>, and what \<open>ok\<close> or \<open>err\<close> raise goes on.
  \<open>try: m  except Exception: handler\<close> is the case where \<open>ok\<close> only returns.
\<close>

definition attempt :: "'a prog \<Rightarrow> ('a \<Rightarrow> 'b prog) \<Rightarrow> (exn \<Rightarrow> 'b prog) \<Rightarrow> 'b prog" where
  "attempt m ok err h = (case m h of (Inl e, h') \<Rightarrow> err e h' | (Inr x, h') \<Rightarrow> ok x h')"

definition try_except :: "'a prog \<Rightarrow> (exn \<Rightarrow> 'a prog) \<Rightarrow> 'a prog" where
  "try_except m handler = attempt m pret handler"

definition call :: "world \<Rightarrow> event \<Rightarrow> unit prog" where
  "call w c h = (case raises w h c of Some e \<Rightarrow> (Inl e, h @ [c]) | None \<Rightarrow> (Inr (), h @ [c]))"

definition py_print :: "world \<Rightarrow> piece list \<Rightarrow> unit prog" where
  "py_print w ps = call w (Print ps)"

definition get_url :: "world \<Rightarrow> string prog" where
  "get_url w h = (Inr (page_url w h), h)"

definition get_time :: "world \<Rightarrow> string prog" where
  "get_time w h = (Inr (strftime w h), h)"

text \<open>
  \<open>with sync_playwright() as p: body\<close>: the context is entered, the body runs, and the
  context's exit runs however the body ended; the body's exception, if any, goes on after
  it.
\<close>

definition with_sync_playwright :: "world \<Rightarrow> 'a prog \<Rightarrow> 'a prog" where
  "with_sync_playwright w body =
     pbind (call w PlaywrightStart) (\<lambda>_ h.
       case body h of (r, h') \<Rightarrow>
         (case call w PlaywrightStop h' of
            (Inl e, h'') \<Rightarrow> (Inl e, h'')
          | (Inr _, h'') \<Rightarrow> (r, h'')))"

subsection \<open>\<open>wait_stable\<close>\<close>

definition wait_stable :: "world \<Rightarrow> nat \<Rightarrow> unit prog" where
  "wait_stable w timeout =
     pseq (try_except (call w (WaitForLoadState ''networkidle'' timeout)) (\<lambda>e. pret ()))
    (pseq (try_except (call w (WaitForLoadState ''domcontentloaded'' 5000)) (\<lambda>e. pret ()))
          (call w (WaitForTimeout 2000)))"

subsection \<open>\<open>capture_structure\<close>\<close>

definition capture_structure :: "world \<Rightarrow> page_structure prog" where
  "capture_structure w =
     pbind (call w Evaluate) (\<lambda>_ h. (Inr (page_function (rendered w h)), h))"

subsection \<open>\<open>login\<close>\<close>

definition login :: "world \<Rightarrow> string prog" where
  \<open>login w =
     pseq (py_print w [Lit ''[LOGIN] Navigating to '', Lit SITE, Lit ''...''])
    (pseq (call w (Goto SITE ''domcontentloaded'' 30000))
    (pseq (wait_stable w 10000)
    (pseq (call w (Screenshot (SCREENSHOTS_DIR @ ''/00-login.png'')))
    (pseq (pbind (get_url w) (\<lambda>u. py_print w [Lit ''  URL: '', Lit u]))
    (pseq (call w (Fill ''#agentId'' ''matt''))
    (pseq (call w (Fill ''#pin'' ''1234''))
    (pseq (call w (Click ''button[type="submit"]''))
    (pseq (wait_stable w 15000)
    (pseq (call w (WaitForTimeout 2000))
    (pseq (pbind (get_url w) (\<lambda>u. py_print w [Lit ''  Post-login: '', Lit u]))
          (get_url w)))))))))))\<close>

subsection \<open>\<open>main\<close>\<close>

definition screenshot_path :: "route \<Rightarrow> string" where
  "screenshot_path pg = SCREENSHOTS_DIR @ ''/'' @ name pg @ ''.png''"

definition success_result :: "route \<Rightarrow> string \<Rightarrow> page_structure \<Rightarrow> result" where
  "success_result pg actual_url s =
     [ (''name'', Str (name pg)),
       (''intended_path'', Str (path pg)),
       (''actual_url'', Str actual_url),
       (''screenshot'', Str (screenshot_path pg)),
       (''title'', JsStr (title s)),
       (''text_summary'', JsStr (textSummary s)),
       (''elements'', Counts (elements s)),
       (''button_labels'', Labels (buttonLabels s)),
       (''sidebar_items'', Items (sidebarItems s)) ]"

definition failure_result :: "route \<Rightarrow> exn \<Rightarrow> result" where
  "failure_result pg e =
     [ (''name'', Str (name pg)),
       (''intended_path'', Str (path pg)),
       (''error'', Str (str e)) ]"

text \<open>
  The two texts of the script with an em dash, which is written here as the three bytes
  of its UTF-8 encoding.
\<close>

definition session_lost_text :: string where
  "session_lost_text = ''  Session lost '' @ [CHR 0xE2, CHR 0x80, CHR 0x94] @ '' re-logging in''"

definition done_text :: string where
  "done_text = ''  DONE '' @ [CHR 0xE2, CHR 0x80, CHR 0x94] @ '' ''"

definition rule_line :: string where
  "rule_line = replicate 70 CHR ''=''"

text \<open>
  The body of the \<open>try\<close> up to the dict display of \<open>result\<close> (lines 120 to 144); it
  returns the result with the structure that the prints after it read.
\<close>

definition visit :: "world \<Rightarrow> route \<Rightarrow> (result \<times> page_structure) prog" where
  "visit w pg =
     pseq (call w (Goto (SITE @ path pg) ''domcontentloaded'' 20000))
    (pseq (wait_stable w 10000)
    (pbind (get_url w) (\<lambda>actual.
     pseq (if str_in ''login'' actual \<and> \<not> str_in ''login'' (path pg)
           then pseq (py_print w [Lit session_lost_text])
               (pseq (login w)
               (pseq (call w (Goto (SITE @ path pg) ''domcontentloaded'' 20000))
                     (wait_stable w 10000)))
           else pret ())
    (pseq (call w (Screenshot (screenshot_path pg)))
    (pbind (capture_structure w) (\<lambda>s.
     pbind (get_url w) (\<lambda>u.
     pret (success_result pg u s, s))))))))"

text \<open>The prints that follow \<open>results.append(result)\<close> inside the \<open>try\<close> (lines 147 to 153).\<close>

fun print_headings :: "world \<Rightarrow> heading list \<Rightarrow> unit prog" where
  "print_headings w [] = pret ()"
| "print_headings w (x # xs) =
     pseq (py_print w [Lit ''  '', Js (heading_tag x), Lit '': '', Js (take 80 (heading_text x))])
          (print_headings w xs)"

fun joined :: "jsstring list \<Rightarrow> piece list" where
  "joined [] = []"
| "joined [x] = [Js x]"
| "joined (x # y # xs) = Js x # Lit '', '' # joined (y # xs)"

definition show_summary :: "world \<Rightarrow> page_structure \<Rightarrow> unit prog" where
  "show_summary w s =
     pseq (pbind (get_url w) (\<lambda>u. py_print w [Lit ''  URL: '', Lit u]))
    (pseq (py_print w
            [Lit ''  Elements: forms='', Num (forms (elements s)),
             Lit '' tables='', Num (tables (elements s)),
             Lit '' buttons='', Num (buttons (elements s)),
             Lit '' inputs='', Num (inputs (elements s)),
             Lit '' cards='', Num (cards (elements s)),
             Lit '' images='', Num (images (elements s))])
    (pseq (print_headings w (take 5 (headings (elements s))))
          (if buttonLabels s \<noteq> []
           then py_print w (Lit ''  Buttons: '' # joined (take 10 (buttonLabels s)))
           else pret ())))"

text \<open>The \<open>except\<close> clause (lines 155 to 157), entered with the results as they are then.\<close>

definition on_error :: "world \<Rightarrow> route \<Rightarrow> result list \<Rightarrow> exn \<Rightarrow> result list prog" where
  "on_error w pg results e =
     pseq (py_print w [Lit ''  ERROR: '', Lit (str e)])
          (pret (results @ [failure_result pg e]))"

text \<open>
  One turn of the \<open>for\<close> loop. The print of line 117 is outside the \<open>try\<close>. Inside it,
  an exception before \<open>results.append(result)\<close> reaches the handler with the results
  unchanged, an exception of a print after it reaches the handler with the result
  already appended.
\<close>

definition process_route :: "world \<Rightarrow> route \<Rightarrow> result list \<Rightarrow> result list prog" where
  "process_route w pg results =
     pseq (py_print w [Lit [CHR 0x0A, CHR ''[''], Lit (name pg), Lit ''] '', Lit (path pg)])
       (attempt (visit w pg)
          (\<lambda>(r, s). attempt (show_summary w s)
                       (\<lambda>_. pret (results @ [r]))
                       (on_error w pg (results @ [r])))
          (on_error w pg results))"

fun audit_loop :: "world \<Rightarrow> route list \<Rightarrow> result list \<Rightarrow> result list prog" where
  "audit_loop w [] results = pret results"
| "audit_loop w (pg # pgs) results = pbind (process_route w pg results) (audit_loop w pgs)"

definition main_on :: "route list \<Rightarrow> world \<Rightarrow> unit prog" where
  "main_on routes w =
     pseq (py_print w [Lit rule_line])
    (pseq (py_print w [Lit ''  SPLITFIN UI AUDIT''])
    (pseq (py_print w [Lit rule_line])
    (with_sync_playwright w
      (pseq (call w Launch)
      (pseq (call w (NewContext VIEWPORT USER_AGENT))
      (pseq (call w NewPage)
      (pseq (login w)
      (pbind (audit_loop w routes []) (\<lambda>results.
       pbind (get_time w) (\<lambda>ts.
       pseq (call w (WriteReport REPORT_FILE
                \<lparr> site = SITE, report_viewport = VIEWPORT, timestamp = ts, pages = results \<rparr>))
      (pseq (py_print w [Lit (CHR 0x0A # rule_line)])
      (pseq (py_print w [Lit done_text, Num (length results), Lit '' pages captured''])
      (pseq (py_print w [Lit ''  Report: '', Lit REPORT_FILE])
      (pseq (py_print w [Lit rule_line])
            (call w BrowserClose)))))))))))))))"

definition main :: "world \<Rightarrow> unit prog" where
  "main w = main_on PAGES w"

section \<open>Vocabulary of the statements\<close>

text \<open>
  The calls made on the page and those made on the console, the page calls of
  \<open>wait_stable\<close> and \<open>login\<close> when nothing stops them, the history at which \<open>main\<close> reaches
  its first \<open>login\<close>, and the two shapes of an entry of \<open>results\<close>.
\<close>

fun page_call :: "event \<Rightarrow> bool" where
  "page_call (Goto _ _ _) = True"
| "page_call (WaitForLoadState _ _) = True"
| "page_call (WaitForTimeout _) = True"
| "page_call (Screenshot _) = True"
| "page_call (Fill _ _) = True"
| "page_call (Click _) = True"
| "page_call Evaluate = True"
| "page_call _ = False"

fun is_print :: "event \<Rightarrow> bool" where
  "is_print (Print _) = True"
| "is_print _ = False"

definition benign :: "event \<Rightarrow> bool" where
  "benign c \<longleftrightarrow> page_call c \<or> is_print c"

fun is_load_wait :: "event \<Rightarrow> bool" where
  "is_load_wait (WaitForLoadState _ _) = True"
| "is_load_wait _ = False"

text \<open>No call raises, on the page, the console or elsewhere, but for the load-state waits.\<close>

definition calm :: "world \<Rightarrow> bool" where
  "calm w \<longleftrightarrow> (\<forall>h c. \<not> is_load_wait c \<longrightarrow> raises w h c = None)"

definition stable_events :: "nat \<Rightarrow> event list" where
  "stable_events timeout =
     [WaitForLoadState ''networkidle'' timeout, WaitForLoadState ''domcontentloaded'' 5000,
      WaitForTimeout 2000]"

definition login_events :: "event list" where
  \<open>login_events =
     [Goto SITE ''domcontentloaded'' 30000] @ stable_events 10000 @
     [Screenshot (SCREENSHOTS_DIR @ ''/00-login.png''), Fill ''#agentId'' ''matt'',
      Fill ''#pin'' ''1234'', Click ''button[type="submit"]''] @ stable_events 15000 @
     [WaitForTimeout 2000]\<close>

text \<open>\<open>passes w h cs\<close>: made in this order from history \<open>h\<close>, none of the calls \<open>cs\<close> raises.\<close>

fun passes :: "world \<Rightarrow> event list \<Rightarrow> event list \<Rightarrow> bool" where
  "passes w h [] \<longleftrightarrow> True"
| "passes w h (c # cs) \<longleftrightarrow> raises w h c = None \<and> passes w (h @ [c]) cs"

definition session_start :: "event list" where
  "session_start =
     [Print [Lit rule_line], Print [Lit ''  SPLITFIN UI AUDIT''], Print [Lit rule_line],
      PlaywrightStart, Launch, NewContext VIEWPORT USER_AGENT, NewPage]"

definition session_opens :: "world \<Rightarrow> bool" where
  "session_opens w \<longleftrightarrow> passes w [] session_start"

fun reports_written :: "event list \<Rightarrow> report list" where
  "reports_written [] = []"
| "reports_written (WriteReport f r # h) = r # reports_written h"
| "reports_written (c # h) = reports_written h"

definition has_key :: "result \<Rightarrow> string \<Rightarrow> bool" where
  "has_key r k \<longleftrightarrow> map_of r k \<noteq> None"





text \<open>The block of the \<open>with\<close> statement, and what it does once the page exists.\<close>

definition session_body :: "route list \<Rightarrow> world \<Rightarrow> unit prog" where
  "session_body routes w =
      pseq (login w)
      (pbind (audit_loop w routes []) (\<lambda>results.
       pbind (get_time w) (\<lambda>ts.
       pseq (call w (WriteReport REPORT_FILE
                \<lparr> site = SITE, report_viewport = VIEWPORT, timestamp = ts, pages = results \<rparr>))
      (pseq (py_print w [Lit (CHR 0x0A # rule_line)])
      (pseq (py_print w [Lit done_text, Num (length results), Lit '' pages captured''])
      (pseq (py_print w [Lit ''  Report: '', Lit REPORT_FILE])
      (pseq (py_print w [Lit rule_line])
            (call w BrowserClose))))))))"

definition block :: "route list \<Rightarrow> world \<Rightarrow> unit prog" where
  "block routes w =
      pseq (call w Launch)
      (pseq (call w (NewContext VIEWPORT USER_AGENT))
      (pseq (call w NewPage) (session_body routes w)))"

definition emits :: "(event \<Rightarrow> bool) \<Rightarrow> 'a prog \<Rightarrow> bool" where
  "emits P m \<longleftrightarrow> (\<forall>h. \<exists>t. snd (m h) = h @ t \<and> list_all P t)"

definition yields :: "('a \<Rightarrow> bool) \<Rightarrow> 'a prog \<Rightarrow> bool" where
  "yields Q m \<longleftrightarrow> (\<forall>h x h'. m h = (Inr x, h') \<longrightarrow> Q x)"

definition ends_in :: "event \<Rightarrow> 'a prog \<Rightarrow> bool" where
  "ends_in c m \<longleftrightarrow> (\<forall>h x h'. m h = (Inr x, h') \<longrightarrow> c \<in> set h')"


text \<open>
  The label computation as the specification words it: the texts of native buttons,
  elements with the button role and submit inputs, the set that \<open>elements.buttons\<close> counts.
\<close>

definition button_labels_spec :: "document \<Rightarrow> jsstring list" where
  \<open>button_labels_spec d =
     take 30 (filter (\<lambda>t. length t > 0 \<and> length t < 80)
       (map (\<lambda>b. js_trim (innerText b))
         (querySelectorAll d ''button, [role="button"], input[type="submit"]'')))\<close>

section \<open>Sample documents and worlds\<close>

definition save_button :: element where
  "save_button = \<lparr> tagName = js_of ''BUTTON'', innerText = js_of '' Save '', href_attribute = None \<rparr>"

definition icon_button :: element where
  "icon_button = \<lparr> tagName = js_of ''BUTTON'', innerText = [], href_attribute = None \<rparr>"

definition submit_input :: element where
  "submit_input = \<lparr> tagName = js_of ''INPUT'', innerText = js_of ''Go'', href_attribute = None \<rparr>"

definition sample_document :: document where
  \<open>sample_document =
     \<lparr> doc_title = js_of ''Dashboard'',
       location_href = js_of ''https://splitfin.co.uk/dashboard'',
       body_innerText = Some (js_of ''Orders''),
       querySelectorAll = (\<lambda>sel.
         if sel = ''button, [role="button"]'' \<or> sel = ''button, [role="button"], input[type="submit"]''
         then [save_button, icon_button] else []) \<rparr>\<close>

text \<open>A page whose only button-like element is a submit input.\<close>

definition submit_only_document :: document where
  \<open>submit_only_document =
     \<lparr> doc_title = js_of ''Sign in'',
       location_href = js_of ''https://splitfin.co.uk/login'',
       body_innerText = Some [],
       querySelectorAll = (\<lambda>sel.
         if sel = ''button, [role="button"], input[type="submit"]'' \<or> sel = ''input, textarea, select''
         then [submit_input] else []) \<rparr>\<close>

text \<open>
  A page whose body text has white space at both ends and runs of line feeds inside, and
  one whose body text is 2500 letters long.
\<close>

definition untidy_document :: document where
  "untidy_document =
     \<lparr> doc_title = [], location_href = [],
       body_innerText = Some (js_of ([CHR 0x20, CHR 0x0A] @ ''Orders'' @ [CHR 0x0A, CHR 0x0A, CHR 0x0A]
                                      @ ''Open 3'' @ [CHR 0x0A, CHR 0x09])),
       querySelectorAll = (\<lambda>sel. []) \<rparr>"

definition long_document :: document where
  "long_document =
     \<lparr> doc_title = [], location_href = [],
       body_innerText = Some (replicate 2500 0x78),
       querySelectorAll = (\<lambda>sel. []) \<rparr>"

text \<open>A page with one heading that starts with a check mark, U+2713.\<close>

definition check_heading :: element where
  "check_heading = \<lparr> tagName = js_of ''H1'', innerText = 0x2713 # js_of '' Done'', href_attribute = None \<rparr>"

definition checked_document :: document where
  "checked_document =
     \<lparr> doc_title = js_of ''Dashboard'',
       location_href = js_of ''https://splitfin.co.uk/dashboard'',
       body_innerText = Some (js_of ''Done''),
       querySelectorAll = (\<lambda>sel. if sel = ''h1, h2, h3, h4'' then [check_heading] else []) \<rparr>"

definition dashboard_route :: route where
  "dashboard_route = \<lparr> path = ''/dashboard'', name = ''01-dashboard'' \<rparr>"

definition orders_route :: route where
  "orders_route = \<lparr> path = ''/orders'', name = ''02-orders'' \<rparr>"

text \<open>Nothing raises and every page is the dashboard.\<close>

definition quiet_world :: world where
  "quiet_world =
     \<lparr> raises = (\<lambda>h c. None),
       page_url = (\<lambda>h. ''https://splitfin.co.uk/dashboard''),
       rendered = (\<lambda>h. sample_document),
       strftime = (\<lambda>h. ''2026-01-01 09:00:00'') \<rparr>"




text \<open>The site is unreachable when \<open>login\<close> starts.\<close>

definition login_fails_world :: world where
  "login_fails_world = quiet_world
     \<lparr> raises := (\<lambda>h c.
          if c = Goto ''https://splitfin.co.uk'' ''domcontentloaded'' 30000
          then Some (Exception ''Timeout 30000ms exceeded.'') else None) \<rparr>"

text \<open>
  A console whose encoding has no check mark (cp1252, say): a \<open>print\<close> of page text that
  holds U+2713 raises, every other call succeeds. Every page shows the checked heading.
\<close>

fun holds_check :: "piece \<Rightarrow> bool" where
  "holds_check (Js t) \<longleftrightarrow> 0x2713 \<in> set t"
| "holds_check p \<longleftrightarrow> False"

fun unprintable :: "event \<Rightarrow> bool" where
  "unprintable (Print ps) \<longleftrightarrow> list_ex holds_check ps"
| "unprintable c \<longleftrightarrow> False"

definition narrow_console_world :: world where
  "narrow_console_world = quiet_world
     \<lparr> raises := (\<lambda>h c.
          if unprintable c
          then Some (Exception ''UnicodeEncodeError: character U+2713 cannot be encoded'')
          else None),
       rendered := (\<lambda>h. checked_document) \<rparr>"

text \<open>
  The navigation to the first route raises, and so does the \<open>print\<close> of the error in the
  handler (standard output is a pipe that has been closed by then).
\<close>

fun error_print :: "event \<Rightarrow> bool" where
  "error_print (Print (Lit t # ps)) \<longleftrightarrow> t = ''  ERROR: ''"
| "error_print c \<longleftrightarrow> False"

definition closed_pipe_world :: world where
  "closed_pipe_world = quiet_world
     \<lparr> raises := (\<lambda>h c.
          if c = Goto ''https://splitfin.co.uk/dashboard'' ''domcontentloaded'' 20000
          then Some (Exception ''net::ERR_CONNECTION_REFUSED'')
          else if error_print c then Some (Exception ''[Errno 32] Broken pipe'')
          else None) \<rparr>"

text \<open>
  A site whose root shows the login form to a visitor and the dashboard, without the
  form, to a session that has logged in: once the form has been submitted, filling
  \<open>#agentId\<close> raises. No page is a login surface.
\<close>

definition form_gone_world :: world where
  \<open>form_gone_world = quiet_world
     \<lparr> raises := (\<lambda>h c.
          if c = Fill ''#agentId'' ''matt'' \<and> Click ''button[type="submit"]'' \<in> set h
          then Some (Exception ''Timeout 30000ms exceeded.'') else None) \<rparr>\<close>

text \<open>
  A site that takes the first submission of the form and answers every later one with
  its login page. Nothing raises.
\<close>

definition relapse_world :: world where
  \<open>relapse_world = quiet_world
     \<lparr> page_url := (\<lambda>h.
          if 2 \<le> length (filter (\<lambda>c. c = Click ''button[type="submit"]'') h)
          then ''https://splitfin.co.uk/login'' else ''https://splitfin.co.uk/dashboard'') \<rparr>\<close>

section \<open>Lemmas on strings\<close>

lemma length_collapse_newlines: "length (collapse_newlines s) \<le> length s"
  by (induction s rule: collapse_newlines.induct) auto

lemma hd_collapse: "collapse_newlines s \<noteq> [] \<Longrightarrow> hd (collapse_newlines s) = hd s"
  by (induction s rule: collapse_newlines.induct) auto

lemma collapse_Nil: "collapse_newlines s = [] \<longleftrightarrow> s = []"
  by (induction s rule: collapse_newlines.induct) auto

lemma not_adjacent_collapse: "\<not> adjacent_newlines (collapse_newlines s)"
proof (induction s rule: collapse_newlines.induct)
  case (1 a b cs)
  then show ?case
    using hd_collapse[of "b # cs"] collapse_Nil[of "b # cs"]
    by (cases "collapse_newlines (b # cs)") auto
qed auto

lemma adjacent_iff: "adjacent_newlines s \<longleftrightarrow> (\<exists>p q. s = p @ [NL, NL] @ q)"
proof (induction s rule: adjacent_newlines.induct)
  case (1 a b cs)
  show ?case
  proof
    assume "adjacent_newlines (a # b # cs)"
    then consider "a = NL \<and> b = NL" | "adjacent_newlines (b # cs)" by auto
    then show "\<exists>p q. a # b # cs = p @ [NL, NL] @ q"
    proof cases
      case 1 then have "a # b # cs = [] @ [NL, NL] @ cs" by simp
      then show ?thesis by blast
    next
      case 2
      with "1.IH" obtain p q where "b # cs = p @ [NL, NL] @ q" by blast
      then have "a # b # cs = (a # p) @ [NL, NL] @ q" by simp
      then show ?thesis by blast
    qed
  next
    assume "\<exists>p q. a # b # cs = p @ [NL, NL] @ q"
    then obtain p q where pq: "a # b # cs = p @ [NL, NL] @ q" by blast
    show "adjacent_newlines (a # b # cs)"
    proof (cases p)
      case Nil with pq show ?thesis by simp
    next
      case (Cons x p')
      with pq have "b # cs = p' @ [NL, NL] @ q" by simp
      then have "adjacent_newlines (b # cs)" using "1.IH" by blast
      then show ?thesis by simp
    qed
  qed
qed (auto simp: append_eq_Cons_conv)

lemma adjacent_rev: "adjacent_newlines (rev s) \<longleftrightarrow> adjacent_newlines s"
proof -
  have "adjacent_newlines t \<Longrightarrow> adjacent_newlines (rev t)" for t
  proof -
    assume "adjacent_newlines t"
    then obtain p q where "t = p @ [NL, NL] @ q" unfolding adjacent_iff by blast
    then have "rev t = rev q @ [NL, NL] @ rev p" by simp
    then show ?thesis unfolding adjacent_iff by blast
  qed
  from this[of s] this[of "rev s"] show ?thesis by auto
qed

lemma adjacent_dropWhile: "adjacent_newlines (dropWhile P s) \<Longrightarrow> adjacent_newlines s"
proof -
  assume "adjacent_newlines (dropWhile P s)"
  then obtain p q where "dropWhile P s = p @ [NL, NL] @ q" unfolding adjacent_iff by blast
  then have "s = (takeWhile P s @ p) @ [NL, NL] @ q"
    using takeWhile_dropWhile_id[of P s] by simp
  then show ?thesis unfolding adjacent_iff by blast
qed

lemma adjacent_js_trim: "adjacent_newlines (js_trim s) \<Longrightarrow> adjacent_newlines s"
  unfolding js_trim_def using adjacent_dropWhile adjacent_rev by blast

lemma length_js_trim: "length (js_trim s) \<le> length s"
  unfolding js_trim_def
  by (metis length_dropWhile_le length_rev le_trans)

lemma js_trim_no_leading: "takeWhile js_ws (js_trim s) = []"
proof (cases "dropWhile js_ws s")
  case Nil
  show ?thesis unfolding js_trim_def Nil by simp
next
  case (Cons x t)
  then have nx: "\<not> js_ws x" using hd_dropWhile[of js_ws s] by auto
  have "dropWhile js_ws (rev t @ [x]) = dropWhile js_ws (rev t) @ [x]"
    using nx by (simp add: dropWhile_append3)
  then have "js_trim s = x # rev (dropWhile js_ws (rev t))"
    using Cons by (simp add: js_trim_def)
  then show ?thesis using nx by simp
qed

lemma js_trim_no_trailing: "takeWhile js_ws (rev (js_trim s)) = []"
  using hd_dropWhile[of js_ws "rev (dropWhile js_ws s)"]
  by (auto simp: js_trim_def takeWhile_eq_Nil_iff)

lemma filter_collapse: "filter (\<lambda>c. c \<noteq> NL) (collapse_newlines s) = filter (\<lambda>c. c \<noteq> NL) s"
  by (induction s rule: collapse_newlines.induct) auto

lemma collapse_newlines_filter:
  "collapse_newlines s =
     map fst (filter (\<lambda>(a, nxt). \<not> (a = 0x0A \<and> nxt = Some 0x0A)) (zip s (map Some (tl s) @ [None])))"
  by (induction s rule: collapse_newlines.induct) (auto simp: NL_def)

lemma adjacent_nth:
  "adjacent_newlines s \<longleftrightarrow> (\<exists>i. Suc i < length s \<and> s ! i = 0x0A \<and> s ! Suc i = 0x0A)"
proof
  assume "adjacent_newlines s"
  then obtain p q where s: "s = p @ [NL, NL] @ q" unfolding adjacent_iff by blast
  have "Suc (length p) < length s" "s ! length p = 0x0A" "s ! Suc (length p) = 0x0A"
    unfolding s by (simp_all add: nth_append NL_def)
  then show "\<exists>i. Suc i < length s \<and> s ! i = 0x0A \<and> s ! Suc i = 0x0A" by blast
next
  assume "\<exists>i. Suc i < length s \<and> s ! i = 0x0A \<and> s ! Suc i = 0x0A"
  then obtain i where i: "Suc i < length s" "s ! i = 0x0A" "s ! Suc i = 0x0A" by blast
  have "s = take i s @ s ! i # s ! Suc i # drop (Suc (Suc i)) s"
    using i(1) by (simp add: Cons_nth_drop_Suc)
  then have "s = take i s @ [NL, NL] @ drop (Suc (Suc i)) s"
    using i(2,3) by (simp add: NL_def)
  then show "adjacent_newlines s" unfolding adjacent_iff by blast
qed

lemma collapse_no_newline: "NL \<notin> set s \<Longrightarrow> collapse_newlines s = s"
  by (induction s rule: collapse_newlines.induct) auto

lemma js_trim_clean: "\<forall>c\<in>set s. \<not> js_ws c \<Longrightarrow> js_trim s = s"
proof -
  assume a: "\<forall>c\<in>set s. \<not> js_ws c"
  have d: "dropWhile js_ws t = t" if "\<forall>c\<in>set t. \<not> js_ws c" for t
    using that by (cases t) auto
  show ?thesis unfolding js_trim_def using d[of s] d[of "rev s"] a by simp
qed

section \<open>Lemmas on runs\<close>

lemma try_except_apply:
  "try_except m handler h =
     (case m h of (Inl e, h') \<Rightarrow> handler e h' | (Inr x, h') \<Rightarrow> (Inr x, h'))"
  by (simp add: try_except_def attempt_def pret_def split: prod.splits sum.splits)

lemma call_None: "raises w h c = None \<Longrightarrow> call w c h = (Inr (), h @ [c])"
  by (simp add: call_def)

lemma call_Some: "raises w h c = Some e \<Longrightarrow> call w c h = (Inl e, h @ [c])"
  by (simp add: call_def)

lemma snd_call: "snd (call w c h) = h @ [c]"
  by (simp add: call_def split: option.splits)

lemma pseq_call:
  "pseq (call w c) n h = (case raises w h c of Some e \<Rightarrow> (Inl e, h @ [c]) | None \<Rightarrow> n (h @ [c]))"
  by (simp add: pseq_def pbind_def call_def split: option.splits)

lemma pseq_print:
  "pseq (py_print w ps) n h =
     (case raises w h (Print ps) of Some e \<Rightarrow> (Inl e, h @ [Print ps]) | None \<Rightarrow> n (h @ [Print ps]))"
  by (simp add: py_print_def pseq_call)

lemma pseq_assoc: "pseq (pseq a b) c h = pseq a (pseq b c) h"
  by (simp add: pseq_def pbind_def split: prod.splits sum.splits)

lemma pseq_print_url:
  "pseq (pbind (get_url w) (\<lambda>u. py_print w (f u))) n h = pseq (py_print w (f (page_url w h))) n h"
  by (simp add: pseq_def pbind_def get_url_def)

lemma pseq_swallow: "pseq (try_except (call w c) (\<lambda>e. pret ())) n h = n (h @ [c])"
  by (simp add: pseq_def pbind_def try_except_apply call_def pret_def split: option.splits)

lemma wait_stable_eq:
  "wait_stable w t h =
     call w (WaitForTimeout 2000)
       (h @ [WaitForLoadState ''networkidle'' t, WaitForLoadState ''domcontentloaded'' 5000])"
  by (simp add: wait_stable_def pseq_swallow)

lemma pseq_wait_stable:
  "pseq (wait_stable w t) n h =
     (case raises w (h @ [WaitForLoadState ''networkidle'' t, WaitForLoadState ''domcontentloaded'' 5000])
             (WaitForTimeout 2000) of
        Some e \<Rightarrow> (Inl e, h @ stable_events t)
      | None \<Rightarrow> n (h @ stable_events t))"
  by (simp add: pseq_def pbind_def wait_stable_eq call_def stable_events_def split: option.splits)


lemma pseq_Inl: "m h = (Inl e, h') \<Longrightarrow> pseq m n h = (Inl e, h')"
  by (simp add: pseq_def pbind_def)

subsection \<open>What a program adds to the history\<close>


lemma emits_pret: "emits P (pret x)"
  by (simp add: emits_def pret_def)

lemma emits_call: "P c \<Longrightarrow> emits P (call w c)"
  by (simp add: emits_def snd_call)

lemma emits_print: "P (Print ps) \<Longrightarrow> emits P (py_print w ps)"
  by (simp add: py_print_def emits_call)

lemma emits_get_url: "emits P (get_url w)"
  by (simp add: emits_def get_url_def)


lemma emits_attempt_yields:
  assumes "emits P m" and "yields Q m" and "\<And>x. Q x \<Longrightarrow> emits P (ok x)" and "\<And>e. emits P (err e)"
  shows "emits P (attempt m ok err)"
  unfolding emits_def
proof
  fix h
  from assms(1) obtain t where t: "snd (m h) = h @ t" "list_all P t"
    unfolding emits_def by blast
  show "\<exists>t. snd (attempt m ok err h) = h @ t \<and> list_all P t"
  proof (cases "m h")
    case (Pair r h')
    with t have h': "h' = h @ t" by simp
    show ?thesis
    proof (cases r)
      case (Inl e)
      from assms(4)[of e] obtain t' where "snd (err e h') = h' @ t'" "list_all P t'"
        unfolding emits_def by blast
      with Pair Inl h' t have "snd (attempt m ok err h) = h @ (t @ t')" "list_all P (t @ t')"
        by (auto simp: attempt_def)
      then show ?thesis by blast
    next
      case (Inr x)
      with Pair assms(2) have "Q x" unfolding yields_def by blast
      from assms(3)[OF this] obtain t' where "snd (ok x h') = h' @ t'" "list_all P t'"
        unfolding emits_def by blast
      with Pair Inr h' t have "snd (attempt m ok err h) = h @ (t @ t')" "list_all P (t @ t')"
        by (auto simp: attempt_def)
      then show ?thesis by blast
    qed
  qed
qed

lemma yields_True: "yields (\<lambda>x. True) m"
  by (simp add: yields_def)

lemma emits_attempt:
  "emits P m \<Longrightarrow> (\<And>x. emits P (ok x)) \<Longrightarrow> (\<And>e. emits P (err e)) \<Longrightarrow> emits P (attempt m ok err)"
  using emits_attempt_yields[of P m "\<lambda>x. True" ok err] by (simp add: yields_True)

lemma pbind_attempt: "pbind m f = attempt m f (\<lambda>e h. (Inl e, h))"
  by (rule ext) (simp add: pbind_def attempt_def split: prod.splits sum.splits)

lemma emits_raise: "emits P (\<lambda>h. (Inl e, h))"
  by (simp add: emits_def)


lemma emits_pbind: "emits P m \<Longrightarrow> (\<And>x. emits P (f x)) \<Longrightarrow> emits P (pbind m f)"
  unfolding pbind_attempt by (rule emits_attempt) (simp_all add: emits_raise)

lemma emits_pseq: "emits P m \<Longrightarrow> emits P n \<Longrightarrow> emits P (pseq m n)"
  by (simp add: pseq_def emits_pbind)

lemma emits_try_except: "emits P m \<Longrightarrow> (\<And>e. emits P (f e)) \<Longrightarrow> emits P (try_except m f)"
  unfolding try_except_def by (rule emits_attempt) (simp_all add: emits_pret)



subsection \<open>What a program returns\<close>






subsection \<open>The calls of each part of the script\<close>

lemma benign_simps [simp]:
  "benign (Print ps)" "benign (Goto u v t)" "benign (WaitForLoadState s t)"
  "benign (WaitForTimeout t)" "benign (Screenshot f)" "benign (Fill a b)" "benign (Click a)"
  "benign Evaluate"
  by (simp_all add: benign_def)

lemma emits_wait_stable: "emits benign (wait_stable w t)"
  by (simp add: wait_stable_def emits_pseq emits_try_except emits_call emits_pret)

lemma emits_login: "emits benign (login w)"
  unfolding login_def
  by (intro emits_pseq emits_pbind emits_call emits_print emits_wait_stable emits_get_url)
     simp_all

lemma login_events_only: "emits (\<lambda>c. c \<in> set login_events \<or> is_print c) (login w)"
  unfolding login_def wait_stable_def
  by (intro emits_pseq emits_pbind emits_call emits_print emits_try_except emits_pret emits_get_url)
     (simp_all add: login_events_def stable_events_def)








subsection \<open>The entries of the results\<close>







subsection \<open>The reports of a run\<close>



lemma main_on_block:
  "main_on routes w =
     pseq (py_print w [Lit rule_line])
    (pseq (py_print w [Lit ''  SPLITFIN UI AUDIT''])
    (pseq (py_print w [Lit rule_line])
    (with_sync_playwright w (block routes w))))"
  by (simp add: main_on_def block_def session_body_def)



lemma reports_written_append: "reports_written (a @ b) = reports_written a @ reports_written b"
  by (induction a rule: reports_written.induct) auto

lemma reports_written_benign: "list_all benign t \<Longrightarrow> reports_written t = []"
  by (induction t rule: reports_written.induct) (auto simp: benign_def)

lemma reports_session_start: "reports_written session_start = []"
  by (simp add: session_start_def)

subsection \<open>The shape of a run\<close>

lemma main_on_opens:
  assumes "session_opens w"
  shows "main_on routes w [] =
     (case raises w (snd (session_body routes w session_start)) PlaywrightStop of
        Some e \<Rightarrow> (Inl e, snd (session_body routes w session_start) @ [PlaywrightStop])
      | None \<Rightarrow> (fst (session_body routes w session_start),
                 snd (session_body routes w session_start) @ [PlaywrightStop]))"
  using assms
  by (simp add: main_on_block block_def with_sync_playwright_def pbind_def pseq_call pseq_print
      call_def session_opens_def session_start_def split: option.splits prod.splits sum.splits)

lemma snd_main_on:
  "session_opens w \<Longrightarrow>
   snd (main_on routes w []) = snd (session_body routes w session_start) @ [PlaywrightStop]"
  by (simp add: main_on_opens split: option.splits)

lemma session_body_login_fails:
  assumes "fst (login w h) = Inl e"
  shows "session_body routes w h = (Inl e, snd (login w h))"
  using assms by (cases "login w h") (simp add: session_body_def pseq_def pbind_def)

lemma main_on_login_fails:
  assumes "session_opens w" and "fst (login w session_start) = Inl e"
  shows "snd (main_on routes w []) = snd (login w session_start) @ [PlaywrightStop]"
    and "fst (main_on routes w []) \<noteq> Inr ()"
  using assms session_body_login_fails[OF assms(2), of routes]
  by (simp_all add: main_on_opens split: option.splits)

lemma login_history: "\<exists>t. snd (login w h) = h @ t \<and> list_all benign t"
  using emits_login[of w] unfolding emits_def by blast

lemma login_history_events:
  "\<exists>t. snd (login w h) = h @ t \<and> (\<forall>c\<in>set t. c \<in> set login_events \<or> is_print c)"
  using login_events_only[of w] unfolding emits_def list_all_iff by blast

lemma main_on_last:
  "Launch \<in> set (snd (main_on routes w [])) \<Longrightarrow> last (snd (main_on routes w [])) = PlaywrightStop"
  by (simp add: main_on_block with_sync_playwright_def pbind_def pseq_print call_def
      split: option.splits prod.splits sum.splits)

lemma main_on_entered:
  "passes w [] [Print [Lit rule_line], Print [Lit ''  SPLITFIN UI AUDIT''], Print [Lit rule_line],
                PlaywrightStart]
   \<Longrightarrow> last (snd (main_on routes w [])) = PlaywrightStop"
  by (simp add: main_on_block with_sync_playwright_def pbind_def pseq_print call_def
      split: option.splits prod.splits sum.splits)

lemma ends_in_call: "ends_in c (call w c)"
  by (auto simp: ends_in_def call_def split: option.splits)

lemma ends_in_pbind: "(\<And>x. ends_in c (f x)) \<Longrightarrow> ends_in c (pbind m f)"
  by (auto simp: ends_in_def pbind_def split: prod.splits sum.splits)

lemma ends_in_pseq: "ends_in c n \<Longrightarrow> ends_in c (pseq m n)"
  by (simp add: pseq_def ends_in_pbind)

lemma ends_in_block: "ends_in BrowserClose (block routes w)"
  unfolding block_def session_body_def
  by (intro ends_in_pseq ends_in_pbind ends_in_call)

lemma main_on_Inr_closes:
  assumes "fst (main_on routes w []) = Inr ()"
  shows "BrowserClose \<in> set (snd (main_on routes w []))"
proof -
  have "\<exists>h h'. block routes w h = (Inr (), h') \<and> snd (main_on routes w []) = h' @ [PlaywrightStop]"
    using assms
    by (auto simp: main_on_block with_sync_playwright_def pbind_def pseq_print call_def
        split: option.splits prod.splits sum.splits)
  then obtain h h' where b: "block routes w h = (Inr (), h')"
      "snd (main_on routes w []) = h' @ [PlaywrightStop]"
    by blast
  from ends_in_block[of routes w] b(1) have "BrowserClose \<in> set h'"
    unfolding ends_in_def by blast
  with b(2) show ?thesis by simp
qed

subsection \<open>The sample worlds\<close>

lemma calm_raises: "calm w \<Longrightarrow> \<not> is_load_wait c \<Longrightarrow> raises w h c = None"
  by (simp add: calm_def)

lemma quiet_fields:
  "raises quiet_world h c = None"
  "page_url quiet_world h = ''https://splitfin.co.uk/dashboard''"
  "rendered quiet_world h = sample_document"
  "strftime quiet_world h = ''2026-01-01 09:00:00''"
  by (simp_all add: quiet_world_def)



lemma login_fails_fields:
  "raises login_fails_world h c =
     (if c = Goto ''https://splitfin.co.uk'' ''domcontentloaded'' 30000
      then Some (Exception ''Timeout 30000ms exceeded.'') else None)"
  "page_url login_fails_world h = ''https://splitfin.co.uk/dashboard''"
  by (simp_all add: login_fails_world_def quiet_world_def)


lemma narrow_console_fields:
  "raises narrow_console_world h c =
     (if unprintable c
      then Some (Exception ''UnicodeEncodeError: character U+2713 cannot be encoded'')
      else None)"
  "page_url narrow_console_world h = ''https://splitfin.co.uk/dashboard''"
  "rendered narrow_console_world h = checked_document"
  "strftime narrow_console_world h = ''2026-01-01 09:00:00''"
  by (simp_all add: narrow_console_world_def quiet_world_def)

lemma closed_pipe_fields:
  "raises closed_pipe_world h c =
     (if c = Goto ''https://splitfin.co.uk/dashboard'' ''domcontentloaded'' 20000
      then Some (Exception ''net::ERR_CONNECTION_REFUSED'')
      else if error_print c then Some (Exception ''[Errno 32] Broken pipe'')
      else None)"
  "page_url closed_pipe_world h = ''https://splitfin.co.uk/dashboard''"
  "rendered closed_pipe_world h = sample_document"
  "strftime closed_pipe_world h = ''2026-01-01 09:00:00''"
  by (simp_all add: closed_pipe_world_def quiet_world_def)

lemma form_gone_fields:
  \<open>raises form_gone_world h c =
     (if c = Fill ''#agentId'' ''matt'' \<and> Click ''button[type="submit"]'' \<in> set h
      then Some (Exception ''Timeout 30000ms exceeded.'') else None)\<close>
  "page_url form_gone_world h = ''https://splitfin.co.uk/dashboard''"
  by (simp_all add: form_gone_world_def quiet_world_def)

lemma relapse_fields:
  "raises relapse_world h c = None"
  \<open>page_url relapse_world h =
     (if 2 \<le> length (filter (\<lambda>c. c = Click ''button[type="submit"]'') h)
      then ''https://splitfin.co.uk/login'' else ''https://splitfin.co.uk/dashboard'')\<close>
  by (simp_all add: relapse_world_def quiet_world_def)

lemmas run_defs = main_on_def with_sync_playwright_def pseq_def pbind_def call_def py_print_def
  wait_stable_def try_except_def attempt_def login_def visit_def show_summary_def on_error_def
  process_route_def get_url_def get_time_def pret_def capture_structure_def

lemma calm_quiet: "calm quiet_world"
  by (simp add: calm_def quiet_fields)


lemmas sample_page_defs = page_function_def element_counts_of_def button_labels_of_def
  sample_document_def save_button_def icon_button_def js_trim_def js_of_def js_ws_def

lemma quiet_run: "fst (main_on [dashboard_route, orders_route] quiet_world []) = Inr ()"
  by (simp add: run_defs quiet_fields sample_page_defs)

lemma rule_line_not_error: "rule_line \<noteq> ''  ERROR: ''"
proof
  assume "rule_line = ''  ERROR: ''"
  then have "length rule_line = length ''  ERROR: ''" by (rule arg_cong)
  then show False by (simp add: rule_line_def)
qed

subsection \<open>Runs in which nothing raises\<close>



lemma login_calm:
  assumes "calm w"
  shows "\<exists>t. login w h = (Inr (page_url w (h @ t)), h @ t) \<and> filter page_call t = login_events
             \<and> list_all benign t"
proof -
  let ?t1 = "[Print [Lit ''[LOGIN] Navigating to '', Lit SITE, Lit ''...''],
              Goto SITE ''domcontentloaded'' 30000] @ stable_events 10000 @
             [Screenshot (SCREENSHOTS_DIR @ ''/00-login.png'')]"
  let ?t2 = \<open>?t1 @ [Print [Lit ''  URL: '', Lit (page_url w (h @ ?t1))],
              Fill ''#agentId'' ''matt'', Fill ''#pin'' ''1234'', Click ''button[type="submit"]'']
             @ stable_events 15000 @ [WaitForTimeout 2000]\<close>
  let ?t = "?t2 @ [Print [Lit ''  Post-login: '', Lit (page_url w (h @ ?t2))]]"
  have "login w h = (Inr (page_url w (h @ ?t)), h @ ?t)"
    using assms
    by (simp add: login_def pseq_call pseq_print pseq_print_url pseq_wait_stable calm_raises
        get_url_def stable_events_def)
  moreover have "filter page_call ?t = login_events"
    by (simp add: login_events_def stable_events_def)
  moreover have "list_all benign ?t"
    by (simp add: stable_events_def)
  ultimately show ?thesis by blast
qed

lemma login_Inr_history:
  "login w h = (Inr u, h') \<Longrightarrow>
   u = page_url w h' \<and> filter page_call h' = filter page_call h @ login_events"
  by (auto simp: login_def pseq_call pseq_print pseq_print_url pseq_wait_stable get_url_def
      login_events_def stable_events_def split: option.splits)




section \<open>The claims\<close>

text \<open>
  C1 asks for exactly one page per route in every run that completes. The prints that
  follow \<open>results.append(result)\<close> are inside the \<open>try\<close>: when one of them raises, the
  handler appends a failure entry for a route whose success entry is already in the
  results. On a console that cannot encode the check mark of a heading, the run over the
  single route \<open>/dashboard\<close> completes and writes a report with two pages of that name, a
  success entry followed by a failure entry.
\<close>

theorem duplicate_entry_after_print_failure:
  "fst (main_on [dashboard_route] narrow_console_world []) = Inr ()
   \<and> map (\<lambda>rep. map (\<lambda>r. (map_of r ''name'', has_key r ''error'')) (pages rep))
         (reports_written (snd (main_on [dashboard_route] narrow_console_world [])))
     = [[(Some (Str ''01-dashboard''), False), (Some (Str ''01-dashboard''), True)]]"
  by (simp add: run_defs narrow_console_fields SITE_def dashboard_route_def has_key_def
      success_result_def failure_result_def page_function_def element_counts_of_def
      button_labels_of_def checked_document_def check_heading_def js_of_def substring0_def)




text \<open>
  C3. For every document, the text excerpt is obtained from the body text (empty without
  a body) by keeping its first 2000 code units, then deleting every line feed that is
  followed by a line feed, so that each run of line feeds becomes one, then removing the
  white space at both ends. It is at most 2000 units long, holds no two consecutive line
  feeds, and neither starts nor ends with white space.
\<close>

theorem text_excerpt_bounded:
  "textSummary (page_function d) =
     (let ws = (\<lambda>c::16 word.
                  c \<in> {0x09, 0x0A, 0x0B, 0x0C, 0x0D, 0x20, 0xA0, 0x1680, 0x2028, 0x2029, 0x202F,
                       0x205F, 0x3000, 0xFEFF} \<or> (0x2000 \<le> c \<and> c \<le> 0x200A));
          t = take 2000 (case body_innerText d of Some b \<Rightarrow> b | None \<Rightarrow> []);
          c = map fst (filter (\<lambda>(a, nxt). \<not> (a = 0x0A \<and> nxt = Some 0x0A))
                        (zip t (map Some (tl t) @ [None])))
      in rev (dropWhile ws (rev (dropWhile ws c))))
   \<and> length (textSummary (page_function d)) \<le> 2000
   \<and> \<not> (\<exists>i. Suc i < length (textSummary (page_function d))
             \<and> textSummary (page_function d) ! i = 0x0A
             \<and> textSummary (page_function d) ! Suc i = 0x0A)
   \<and> takeWhile js_ws (textSummary (page_function d)) = []
   \<and> takeWhile js_ws (rev (textSummary (page_function d))) = []"
proof -
  let ?b = "case body_innerText d of Some t \<Rightarrow> t | None \<Rightarrow> []"
  let ?c = "collapse_newlines (substring0 2000 ?b)"
  have ws: "js_ws = (\<lambda>c::16 word.
                  c \<in> {0x09, 0x0A, 0x0B, 0x0C, 0x0D, 0x20, 0xA0, 0x1680, 0x2028, 0x2029, 0x202F,
                       0x205F, 0x3000, 0xFEFF} \<or> (0x2000 \<le> c \<and> c \<le> 0x200A))"
    by (rule ext) (auto simp: js_ws_def)
  have eq: "textSummary (page_function d) = js_trim ?c"
    by (simp add: page_function_def text_summary_of_def)
  have first: "js_trim ?c =
     (let ws = (\<lambda>c::16 word.
                  c \<in> {0x09, 0x0A, 0x0B, 0x0C, 0x0D, 0x20, 0xA0, 0x1680, 0x2028, 0x2029, 0x202F,
                       0x205F, 0x3000, 0xFEFF} \<or> (0x2000 \<le> c \<and> c \<le> 0x200A));
          t = take 2000 ?b;
          c = map fst (filter (\<lambda>(a, nxt). \<not> (a = 0x0A \<and> nxt = Some 0x0A))
                        (zip t (map Some (tl t) @ [None])))
      in rev (dropWhile ws (rev (dropWhile ws c))))"
    unfolding Let_def ws[symmetric] js_trim_def substring0_def
    by (simp only: collapse_newlines_filter[of "take 2000 ?b"])
  have "length (js_trim ?c) \<le> length ?c" by (rule length_js_trim)
  also have "\<dots> \<le> length (substring0 2000 ?b)" by (rule length_collapse_newlines)
  also have "\<dots> \<le> 2000" by (simp add: substring0_def)
  finally have len: "length (js_trim ?c) \<le> 2000" .
  have "\<not> adjacent_newlines (js_trim ?c)"
    using adjacent_js_trim not_adjacent_collapse by blast
  then have adj: "\<not> (\<exists>i. Suc i < length (js_trim ?c) \<and> js_trim ?c ! i = 0x0A
                         \<and> js_trim ?c ! Suc i = 0x0A)"
    unfolding adjacent_nth .
  show ?thesis
    unfolding eq using first len adj js_trim_no_leading js_trim_no_trailing by blast
qed

theorem text_excerpt_bounded_witness:
  "textSummary (page_function untidy_document) = js_of (''Orders'' @ [CHR 0x0A] @ ''Open 3'')
   \<and> textSummary (page_function long_document) = replicate 2000 0x78"
proof -
  from text_excerpt_bounded[of untidy_document]
  have "textSummary (page_function untidy_document) =
     (let ws = (\<lambda>c::16 word.
                  c \<in> {0x09, 0x0A, 0x0B, 0x0C, 0x0D, 0x20, 0xA0, 0x1680, 0x2028, 0x2029, 0x202F,
                       0x205F, 0x3000, 0xFEFF} \<or> (0x2000 \<le> c \<and> c \<le> 0x200A));
          t = take 2000 (case body_innerText untidy_document of Some b \<Rightarrow> b | None \<Rightarrow> []);
          c = map fst (filter (\<lambda>(a, nxt). \<not> (a = 0x0A \<and> nxt = Some 0x0A))
                        (zip t (map Some (tl t) @ [None])))
      in rev (dropWhile ws (rev (dropWhile ws c))))"
    by (rule conjunct1)
  then have u: "textSummary (page_function untidy_document)
      = js_of (''Orders'' @ [CHR 0x0A] @ ''Open 3'')"
    by (simp add: untidy_document_def js_of_def Let_def)
  have "(0x78::16 word) \<noteq> NL" by (simp add: NL_def)
  then have c: "collapse_newlines (replicate 2000 (0x78::16 word)) = replicate 2000 0x78"
    by (intro collapse_no_newline) auto
  have "\<not> js_ws (0x78::16 word)" by (simp add: js_ws_def)
  then have t: "js_trim (replicate 2000 (0x78::16 word)) = replicate 2000 0x78"
    by (intro js_trim_clean) auto
  have "textSummary (page_function long_document) = replicate 2000 0x78"
    by (simp add: page_function_def text_summary_of_def long_document_def substring0_def c t)
  with u show ?thesis by blast
qed

text \<open>
  C4, as stated, collects the labels of native buttons, elements with the button role and
  submit inputs. The selector of the label query names only the first two; submit inputs
  are in the selector of the count \<open>elements.buttons\<close> alone. On a page whose only
  button-like element is a submit input, one button is counted and no label is collected.
\<close>

theorem submit_input_label_counterexample:
  "buttons (elements (page_function submit_only_document)) = 1
   \<and> button_labels_spec submit_only_document = [js_of ''Go'']
   \<and> buttonLabels (page_function submit_only_document) = []"
  by (simp add: page_function_def element_counts_of_def button_labels_of_def
      button_labels_spec_def submit_only_document_def submit_input_def js_trim_def js_of_def
      js_ws_def)

text \<open>
  C4, amended. The button labels are the trimmed \<open>innerText\<close> of the elements matching
  \<open>button, [role="button"]\<close>, in document order, of which those that are non-empty and
  shorter than 80 are kept, and of these the first 30. Every label has between 1 and 79
  code units, and there are at most 30 labels, for every document.
\<close>

theorem button_labels_bounded:
  \<open>buttonLabels (page_function d) =
     take 30 (filter (\<lambda>t. 0 < length t \<and> length t < 80)
       (map (\<lambda>b. js_trim (innerText b)) (querySelectorAll d ''button, [role="button"]'')))
   \<and> length (buttonLabels (page_function d)) \<le> 30
   \<and> (\<forall>t\<in>set (buttonLabels (page_function d)). 1 \<le> length t \<and> length t \<le> 79)\<close>
proof (intro conjI ballI)
  show \<open>buttonLabels (page_function d) =
     take 30 (filter (\<lambda>t. 0 < length t \<and> length t < 80)
       (map (\<lambda>b. js_trim (innerText b)) (querySelectorAll d ''button, [role="button"]'')))\<close>
    by (simp add: page_function_def button_labels_of_def)
  show "length (buttonLabels (page_function d)) \<le> 30"
    by (simp add: page_function_def button_labels_of_def)
next
  fix t assume "t \<in> set (buttonLabels (page_function d))"
  then have "t \<in> set (button_labels_of d)"
    by (simp add: page_function_def)
  then have \<open>t \<in> set (filter (\<lambda>t. 0 < length t \<and> length t < 80)
       (map (\<lambda>b. js_trim (innerText b)) (querySelectorAll d ''button, [role="button"]'')))\<close>
    unfolding button_labels_of_def by (rule in_set_takeD)
  then have "0 < length t \<and> length t < 80" by simp
  then show "1 \<le> length t" and "length t \<le> 79" by arith+
qed

theorem button_labels_bounded_witness:
  "buttonLabels (page_function sample_document) = [js_of ''Save'']
   \<and> length (buttonLabels (page_function sample_document)) \<le> 30
   \<and> 1 \<le> length (js_of ''Save'') \<and> length (js_of ''Save'') \<le> 79"
proof -
  have e: "buttonLabels (page_function sample_document) = [js_of ''Save'']"
    by (simp add: page_function_def button_labels_of_def sample_document_def save_button_def
        icon_button_def js_trim_def js_of_def js_ws_def)
  then have m: "js_of ''Save'' \<in> set (buttonLabels (page_function sample_document))"
    by simp
  from button_labels_bounded[of sample_document]
  have "length (buttonLabels (page_function sample_document)) \<le> 30"
    and "\<forall>t\<in>set (buttonLabels (page_function sample_document)). 1 \<le> length t \<and> length t \<le> 79"
    by blast+
  with e m show ?thesis by blast
qed



text \<open>
  C6 asks that the failure of one route never keeps the later routes from being attempted
  nor the report from being written. The handler prints the exception before it appends
  the failure entry, and nothing catches what this print raises. In the run below the
  navigation to the first of two routes raises, and so does the print of its error: the
  exception leaves the loop, \<open>main\<close> ends with it after the exit of the context, the
  second route is never navigated to and no report is written.
\<close>

theorem failure_escapes_through_handler_print:
  "fst (main_on [dashboard_route, orders_route] closed_pipe_world [])
     = Inl (Exception ''[Errno 32] Broken pipe'')
   \<and> Goto (SITE @ path orders_route) ''domcontentloaded'' 20000
       \<notin> set (snd (main_on [dashboard_route, orders_route] closed_pipe_world []))
   \<and> reports_written (snd (main_on [dashboard_route, orders_route] closed_pipe_world [])) = []
   \<and> last (snd (main_on [dashboard_route, orders_route] closed_pipe_world [])) = PlaywrightStop"
  by (simp add: run_defs closed_pipe_fields SITE_def dashboard_route_def orders_route_def
      sample_page_defs rule_line_not_error)

text \<open>
  C7. \<open>wait_stable\<close> always makes its three calls in order, the wait for network idle
  with the given timeout, the wait for the parsed content with 5000 ms, and the settle
  delay of 2000 ms, whatever the two waits did; an exception of either wait is swallowed,
  and the outcome is that of the settle delay alone.
\<close>

theorem wait_stable_swallows_timeouts:
  "snd (wait_stable w timeout h) =
     h @ [WaitForLoadState ''networkidle'' timeout, WaitForLoadState ''domcontentloaded'' 5000,
          WaitForTimeout 2000]
   \<and> fst (wait_stable w timeout h) =
       (case raises w (h @ [WaitForLoadState ''networkidle'' timeout,
                            WaitForLoadState ''domcontentloaded'' 5000]) (WaitForTimeout 2000) of
          None \<Rightarrow> Inr ()
        | Some e \<Rightarrow> Inl e)"
  by (simp add: wait_stable_eq call_def split: option.splits)

text \<open>
  C8. If the session was opened and the initial \<open>login\<close> raises, the run ends there: the
  only call after those of the failed login is the exit of the Playwright context, the
  run does not return normally, no report is written, and no route is navigated to or
  extracted. Every call of the run is one of the opening, a page call of \<open>login\<close>, a
  print, or that exit.
\<close>

theorem failed_initial_login_is_fatal:
  assumes "session_opens w" and "fst (login w session_start) = Inl e"
  shows "snd (main_on routes w []) = snd (login w session_start) @ [PlaywrightStop]
       \<and> fst (main_on routes w []) \<noteq> Inr ()
       \<and> set (snd (main_on routes w []))
           \<subseteq> set session_start \<union> set login_events \<union> {PlaywrightStop} \<union> {c. is_print c}
       \<and> reports_written (snd (main_on routes w [])) = []
       \<and> Evaluate \<notin> set (snd (main_on routes w []))
       \<and> (\<forall>p. Goto (SITE @ path p) ''domcontentloaded'' 20000 \<notin> set (snd (main_on routes w [])))"
proof -
  note m = main_on_login_fails[OF assms, of routes]
  obtain t where t: "snd (login w session_start) = session_start @ t"
      "\<forall>c\<in>set t. c \<in> set login_events \<or> is_print c"
    using login_history_events by blast
  have sub: "set (snd (main_on routes w []))
      \<subseteq> set session_start \<union> set login_events \<union> {PlaywrightStop} \<union> {c. is_print c}"
    unfolding m(1) t(1) using t(2) by auto
  have r: "reports_written (snd (main_on routes w [])) = []"
  proof -
    obtain t' where t': "snd (login w session_start) = session_start @ t'" "list_all benign t'"
      using login_history by blast
    show ?thesis unfolding m(1) t'(1)
      by (simp add: reports_written_append reports_session_start reports_written_benign[OF t'(2)])
  qed
  have ev: "Evaluate \<notin> set session_start \<union> set login_events \<union> {PlaywrightStop} \<union> {c. is_print c}"
    by (simp add: session_start_def login_events_def stable_events_def)
  have gt: "Goto (SITE @ path p) ''domcontentloaded'' 20000
              \<notin> set session_start \<union> set login_events \<union> {PlaywrightStop} \<union> {c. is_print c}" for p
    by (simp add: session_start_def login_events_def stable_events_def)
  from m sub r ev gt show ?thesis by blast
qed

theorem failed_initial_login_is_fatal_witness:
  "session_opens login_fails_world
   \<and> fst (login login_fails_world session_start) = Inl (Exception ''Timeout 30000ms exceeded.'')
   \<and> snd (main login_fails_world []) =
        session_start @ [Print [Lit ''[LOGIN] Navigating to '', Lit SITE, Lit ''...''],
                         Goto SITE ''domcontentloaded'' 30000, PlaywrightStop]
   \<and> fst (main login_fails_world []) \<noteq> Inr ()
   \<and> reports_written (snd (main login_fails_world [])) = []"
proof -
  have o: "session_opens login_fails_world"
    by (simp add: session_opens_def session_start_def login_fails_fields)
  have l: "login login_fails_world session_start =
      (Inl (Exception ''Timeout 30000ms exceeded.''),
       session_start @ [Print [Lit ''[LOGIN] Navigating to '', Lit SITE, Lit ''...''],
                        Goto SITE ''domcontentloaded'' 30000])"
    by (simp add: login_def pseq_call pseq_print login_fails_fields SITE_def)
  from failed_initial_login_is_fatal[of login_fails_world "Exception ''Timeout 30000ms exceeded.''" PAGES]
    o l show ?thesis by (auto simp: main_def)
qed

text \<open>
  C9. The session is acquired inside \<open>with sync_playwright()\<close>, and the exit of that
  context is the teardown: once the context is entered, and so whenever the browser was
  launched, the last call of the run is the exit of the context, however the block ended,
  by normal completion, after failures of routes, or by an exception that propagates, that
  of the initial login included. A run that completes normally has called
  \<open>browser.close()\<close> as well.
\<close>

theorem teardown_on_exit_paths:
  "(passes w [] [Print [Lit rule_line], Print [Lit ''  SPLITFIN UI AUDIT''], Print [Lit rule_line],
                 PlaywrightStart]
      \<longrightarrow> last (snd (main_on routes w [])) = PlaywrightStop)
   \<and> (Launch \<in> set (snd (main_on routes w []))
      \<longrightarrow> last (snd (main_on routes w [])) = PlaywrightStop)
   \<and> (fst (main_on routes w []) = Inr ()
      \<longrightarrow> BrowserClose \<in> set (snd (main_on routes w [])))"
  using main_on_entered[of w routes] main_on_last[of routes w] main_on_Inr_closes[of routes w]
  by blast

theorem teardown_on_exit_paths_witness:
  "passes login_fails_world []
      [Print [Lit rule_line], Print [Lit ''  SPLITFIN UI AUDIT''], Print [Lit rule_line],
       PlaywrightStart]
   \<and> fst (main_on PAGES login_fails_world []) = Inl (Exception ''Timeout 30000ms exceeded.'')
   \<and> Launch \<in> set (snd (main_on PAGES login_fails_world []))
   \<and> last (snd (main_on PAGES login_fails_world [])) = PlaywrightStop
   \<and> fst (main_on [dashboard_route, orders_route] quiet_world []) = Inr ()
   \<and> last (snd (main_on [dashboard_route, orders_route] quiet_world [])) = PlaywrightStop
   \<and> BrowserClose \<in> set (snd (main_on [dashboard_route, orders_route] quiet_world []))"
proof -
  have p: "passes login_fails_world []
      [Print [Lit rule_line], Print [Lit ''  SPLITFIN UI AUDIT''], Print [Lit rule_line],
       PlaywrightStart]"
    by (simp add: login_fails_fields)
  have q: "passes quiet_world []
      [Print [Lit rule_line], Print [Lit ''  SPLITFIN UI AUDIT''], Print [Lit rule_line],
       PlaywrightStart]"
    by (simp add: quiet_fields)
  have f: "fst (main_on PAGES login_fails_world []) = Inl (Exception ''Timeout 30000ms exceeded.'')"
    and l: "Launch \<in> set (snd (main_on PAGES login_fails_world []))"
    by (simp_all add: main_on_def with_sync_playwright_def pseq_assoc pseq_call pseq_print
        pbind_def call_def login_def login_fails_fields SITE_def)
  from teardown_on_exit_paths[of login_fails_world PAGES]
       teardown_on_exit_paths[of quiet_world "[dashboard_route, orders_route]"]
       p q f l quiet_run
  show ?thesis by blast
qed

text \<open>
  C10, as stated, has \<open>login\<close> complete on an authenticated session and return a URL that
  is no login surface. \<open>login\<close> fills the field \<open>#agentId\<close> and reads \<open>page.url\<close> without
  looking at the session. On a site that shows no login form to a session that has logged
  in, the first \<open>login\<close> completes on the dashboard and the next one raises at the fill.
  On a site that answers a second submission with its login page, the first \<open>login\<close>
  completes on the dashboard and the next one completes and returns the login URL.
\<close>

theorem login_not_idempotent_counterexample:
  "fst (login form_gone_world []) = Inr ''https://splitfin.co.uk/dashboard''
   \<and> \<not> str_in ''login'' ''https://splitfin.co.uk/dashboard''
   \<and> fst (login form_gone_world (snd (login form_gone_world [])))
       = Inl (Exception ''Timeout 30000ms exceeded.'')
   \<and> fst (login relapse_world []) = Inr ''https://splitfin.co.uk/dashboard''
   \<and> fst (login relapse_world (snd (login relapse_world [])))
       = Inr ''https://splitfin.co.uk/login''
   \<and> str_in ''login'' ''https://splitfin.co.uk/login''"
  by (simp add: login_def pseq_call pseq_print pseq_print_url pseq_wait_stable get_url_def
      stable_events_def form_gone_fields relapse_fields)

text \<open>
  C10, amended. \<open>login\<close> makes the same fixed sequence of page calls at every invocation
  and does not look at the state of the session. Provided none of its calls other than
  the swallowed load-state waits raises, one invocation and two in succession complete
  without error, each returning \<open>page.url\<close> as read after its last call; and whenever an
  invocation completes, it has made the whole sequence and returns that URL. Whether the
  URL is a login surface is not checked.
\<close>

theorem login_repeatable:
  "(calm w \<longrightarrow>
      (\<exists>t. login w h = (Inr (page_url w (h @ t)), h @ t) \<and> filter page_call t = login_events)
      \<and> (\<exists>t. pseq (login w) (login w) h = (Inr (page_url w (h @ t)), h @ t)
              \<and> filter page_call t = login_events @ login_events))
   \<and> (login w h = (Inr u, h') \<longrightarrow>
        u = page_url w h' \<and> filter page_call h' = filter page_call h @ login_events)"
proof (intro conjI impI)
  assume c: "calm w"
  obtain t1 where t1: "login w h = (Inr (page_url w (h @ t1)), h @ t1)"
      "filter page_call t1 = login_events"
    using login_calm[OF c] by blast
  obtain t2 where t2: "login w (h @ t1) = (Inr (page_url w ((h @ t1) @ t2)), (h @ t1) @ t2)"
      "filter page_call t2 = login_events"
    using login_calm[OF c] by blast
  show "\<exists>t. login w h = (Inr (page_url w (h @ t)), h @ t) \<and> filter page_call t = login_events"
    using t1 by blast
  have "pseq (login w) (login w) h = (Inr (page_url w (h @ (t1 @ t2))), h @ (t1 @ t2))"
    using t1(1) t2(1) by (simp add: pseq_def pbind_def)
  moreover have "filter page_call (t1 @ t2) = login_events @ login_events"
    using t1(2) t2(2) by simp
  ultimately show "\<exists>t. pseq (login w) (login w) h = (Inr (page_url w (h @ t)), h @ t)
              \<and> filter page_call t = login_events @ login_events"
    by blast
next
  assume "login w h = (Inr u, h')"
  then show "u = page_url w h'" and "filter page_call h' = filter page_call h @ login_events"
    using login_Inr_history by blast+
qed

theorem login_repeatable_witness:
  "fst (login quiet_world []) = Inr ''https://splitfin.co.uk/dashboard''
   \<and> filter page_call (snd (login quiet_world [])) = login_events
   \<and> fst (pseq (login quiet_world) (login quiet_world) []) = Inr ''https://splitfin.co.uk/dashboard''
   \<and> filter page_call (snd (pseq (login quiet_world) (login quiet_world) []))
       = login_events @ login_events"
proof -
  from login_repeatable[of quiet_world "[]" "''''" "[]"] calm_quiet
  obtain t1 t2 where
    "login quiet_world [] = (Inr (page_url quiet_world ([] @ t1)), [] @ t1)"
    "filter page_call t1 = login_events"
    "pseq (login quiet_world) (login quiet_world) []
       = (Inr (page_url quiet_world ([] @ t2)), [] @ t2)"
    "filter page_call t2 = login_events @ login_events"
    by blast
  then show ?thesis by (simp add: quiet_fields)
qed

end
